theory Spec2Isabelle
  imports Complex_Main "HOL-Library.Multiset"
begin

section \<open>Coordinates\<close>

text \<open>
  Modelled from the spec: \<^verbatim>\<open>CartesianCoordinate\<close> (module \<^verbatim>\<open>coordinates\<close> is imported by
  \<^verbatim>\<open>geometry.py\<close> but is not among the sources). The spec's data model gives it the
  attributes x, y, z, real numbers, and a vector subtraction that yields the 3D
  displacement. The selectors are called \<open>coord_x\<close>, \<open>coord_y\<close>, \<open>coord_z\<close> so that
  \<open>x\<close>, \<open>y\<close>, \<open>z\<close> stay free for variables. Coordinates are real numbers, as in the
  spec: rounding of machine floats is outside this development.
\<close>

datatype CartesianCoordinate =
  CartesianCoordinate (coord_x: real) (coord_y: real) (coord_z: real)

type_synonym vector = "real \<times> real \<times> real"

text \<open>Modelled from the spec: \<^verbatim>\<open>CartesianCoordinate.__sub__\<close>, the displacement vector.\<close>

definition coord_sub :: "CartesianCoordinate \<Rightarrow> CartesianCoordinate \<Rightarrow> vector" where
  "coord_sub p q = (coord_x p - coord_x q, coord_y p - coord_y q, coord_z p - coord_z q)"

text \<open>\<^verbatim>\<open>numpy.cross\<close> on two 3-vectors.\<close>

fun cross :: "vector \<Rightarrow> vector \<Rightarrow> vector" where
  "cross (u1, u2, u3) (v1, v2, v3) =
     (u2 * v3 - u3 * v2, u3 * v1 - u1 * v3, u1 * v2 - u2 * v1)"

section \<open>Line2D\<close>

text \<open>
  The value \<^verbatim>\<open>slope*x + linear_constant\<close> that \<^verbatim>\<open>get_line_equation\<close> returns is a symbolic
  expression in \<^verbatim>\<open>x\<close>; \<open>Linear slope linear_constant\<close> stands for it, and \<open>linear_at\<close>
  is its value at an abscissa. Python's \<^verbatim>\<open>None\<close> is \<open>None\<close>.
\<close>

datatype Line2D = Line2D CartesianCoordinate CartesianCoordinate

datatype linear = Linear real real

fun linear_at :: "linear \<Rightarrow> real \<Rightarrow> real" where
  "linear_at (Linear slope linear_constant) t = slope * t + linear_constant"

fun get_line_equation :: "Line2D \<Rightarrow> linear option" where
  "get_line_equation (Line2D point_A point_B) =
     (if coord_x point_B - coord_x point_A = 0 then None
      else
        let slope = (coord_y point_B - coord_y point_A) / (coord_x point_B - coord_x point_A);
            linear_constant = - slope * coord_x point_A + coord_y point_A
        in Some (Linear slope linear_constant))"

section \<open>Symbolic values and integration\<close>

text \<open>
  The volumes are numbers of the symbolic library (\<^verbatim>\<open>sympy\<close>) or the Python float
  \<^verbatim>\<open>0.0\<close>. A division by zero in a symbolic expression does not raise: it yields the
  library's non-finite values (\<^verbatim>\<open>zoo\<close>, and \<^verbatim>\<open>nan\<close> for \<^verbatim>\<open>0/0\<close>). \<open>Num r\<close> is a finite
  number and \<open>NaN\<close> is \<^verbatim>\<open>nan\<close>; \<^verbatim>\<open>abs\<close> and \<^verbatim>\<open>+\<close> propagate it.
\<close>

datatype sym = Num real | NaN

fun sym_abs :: "sym \<Rightarrow> sym" where
  "sym_abs (Num r) = Num \<bar>r\<bar>"
| "sym_abs NaN = NaN"

fun sym_add :: "sym \<Rightarrow> sym \<Rightarrow> sym" where
  "sym_add (Num r) (Num s) = Num (r + s)"
| "sym_add _ _ = NaN"

text \<open>
  \<open>Plane a b c xo yo zo\<close> stands for the expression
  \<^verbatim>\<open>((-a*(x-xo)-b*(y-yo))/c)+zo\<close> in the symbols \<^verbatim>\<open>x\<close> and \<^verbatim>\<open>y\<close>. Its value at a point is a
  real number only when \<open>c \<noteq> 0\<close>; with \<open>c = 0\<close> the expression holds \<^verbatim>\<open>zoo\<close> or is \<^verbatim>\<open>nan\<close>
  and has no finite value anywhere.
\<close>

datatype plane = Plane real real real real real real

fun plane_at :: "plane \<Rightarrow> real \<Rightarrow> real \<Rightarrow> real option" where
  "plane_at (Plane a b c xo yo zo) px py =
     (if c = 0 then None else Some (((- a * (px - xo) - b * (py - yo)) / c) + zo))"

text \<open>
  Polynomials in \<^verbatim>\<open>x\<close> as coefficient lists, constant term first: what the symbolic
  integration of an affine integrand between linear limits works on.
\<close>

type_synonym poly = "real list"

fun peval :: "poly \<Rightarrow> real \<Rightarrow> real" where
  "peval [] t = 0"
| "peval (k # ks) t = k + t * peval ks t"

fun padd :: "poly \<Rightarrow> poly \<Rightarrow> poly" where
  "padd [] q = q"
| "padd p [] = p"
| "padd (k # p) (l # q) = (k + l) # padd p q"

definition smult :: "real \<Rightarrow> poly \<Rightarrow> poly" where
  "smult r p = map (\<lambda>k. r * k) p"

definition psub :: "poly \<Rightarrow> poly \<Rightarrow> poly" where
  "psub p q = padd p (smult (- 1) q)"

fun pmult :: "poly \<Rightarrow> poly \<Rightarrow> poly" where
  "pmult [] q = []"
| "pmult (k # p) q = padd (smult k q) (0 # pmult p q)"

text \<open>The antiderivative with constant term 0: the coefficient of \<open>t ^ n\<close> moves to
  \<open>t ^ (n + 1)\<close> divided by \<open>n + 1\<close>.\<close>

fun pint_from :: "nat \<Rightarrow> poly \<Rightarrow> poly" where
  "pint_from n [] = []"
| "pint_from n (k # ks) = k / real (Suc n) # pint_from (Suc n) ks"

definition pint :: "poly \<Rightarrow> poly" where
  "pint p = 0 # pint_from 0 p"

text \<open>
  The antiderivative in \<^verbatim>\<open>y\<close> of the plane expression (for \<open>c \<noteq> 0\<close>), taken at
  \<^verbatim>\<open>y = slope*x + linear_constant\<close>: with \<open>u\<close> the part of the plane free of \<^verbatim>\<open>y\<close> and \<open>v\<close>
  the coefficient of \<^verbatim>\<open>y\<close>, it is \<open>u * y + v / 2 * y\<^sup>2\<close>, a polynomial in \<^verbatim>\<open>x\<close>.
\<close>

fun antiderivative_y :: "plane \<Rightarrow> linear \<Rightarrow> poly" where
  "antiderivative_y (Plane a b c xo yo zo) (Linear slope linear_constant) =
     (let u = [(a * xo + b * yo) / c + zo, - a / c];
          v = - b / c;
          l = [linear_constant, slope]
      in padd (pmult u l) (smult (v / 2) (pmult l l)))"

text \<open>
  \<^verbatim>\<open>integrate(plane, (y, line_from, line_to), (x, outer_from, outer_to))\<close> of the symbolic
  library, in the order the library decides it: an integrand that is \<^verbatim>\<open>nan\<close> (the
  quotient \<^verbatim>\<open>0/0\<close>, when \<open>a = b = c = 0\<close>) gives \<^verbatim>\<open>nan\<close>; a limit pair with equal ends gives
  0; an integrand that holds \<^verbatim>\<open>zoo\<close> (\<open>c = 0\<close>) gives no finite number; otherwise the
  integrand is affine and the limits are linear, the inner integral is a polynomial
  in \<^verbatim>\<open>x\<close> and the result is its antiderivative between the outer limits.
\<close>

fun integrate :: "plane \<Rightarrow> linear \<Rightarrow> linear \<Rightarrow> real \<Rightarrow> real \<Rightarrow> sym" where
  "integrate (Plane a b c xo yo zo) line_from line_to outer_from outer_to =
     (if a = 0 \<and> b = 0 \<and> c = 0 then NaN
      else if line_from = line_to \<or> outer_from = outer_to then Num 0
      else if c = 0 then NaN
      else
        let inner = psub (antiderivative_y (Plane a b c xo yo zo) line_to)
                         (antiderivative_y (Plane a b c xo yo zo) line_from);
            outer = pint inner
        in Num (peval outer outer_to - peval outer outer_from))"

section \<open>Triangle\<close>

datatype Triangle = Triangle CartesianCoordinate CartesianCoordinate CartesianCoordinate

fun get_plane_equation :: "Triangle \<Rightarrow> plane" where
  "get_plane_equation (Triangle point_A point_B point_C) =
     (let vector_AB = coord_sub point_B point_A;
          vector_BC = coord_sub point_C point_B
      in case cross vector_AB vector_BC of
           (a, b, c) \<Rightarrow> Plane a b c (coord_x point_A) (coord_y point_A) (coord_z point_A))"

definition compute_double_integral ::
    "plane \<Rightarrow> real \<Rightarrow> real \<Rightarrow> linear option \<Rightarrow> linear option \<Rightarrow> sym" where
  "compute_double_integral plane outer_boundary_from outer_boundary_to
       line_from_equation line_to_equation =
     (if line_from_equation = None \<or> line_to_equation = None then Num 0
      else integrate plane (the line_from_equation) (the line_to_equation)
             outer_boundary_from outer_boundary_to)"

text \<open>
  \<^verbatim>\<open>points.sort()\<close> compares with \<^verbatim>\<open>CartesianCoordinate.__lt__\<close>, which is not among the
  sources: the comparison is the parameter \<open>lt\<close>. Python's sort is stable; on a short
  list it is a binary insertion sort that puts each element after the elements not
  greater than it.
\<close>

fun insert_point ::
    "(CartesianCoordinate \<Rightarrow> CartesianCoordinate \<Rightarrow> bool) \<Rightarrow> CartesianCoordinate \<Rightarrow>
     CartesianCoordinate list \<Rightarrow> CartesianCoordinate list" where
  "insert_point lt p [] = [p]"
| "insert_point lt p (q # qs) = (if lt p q then p # q # qs else q # insert_point lt p qs)"

definition sort_points ::
    "(CartesianCoordinate \<Rightarrow> CartesianCoordinate \<Rightarrow> bool) \<Rightarrow> CartesianCoordinate list \<Rightarrow>
     CartesianCoordinate list" where
  "sort_points lt ps = foldl (\<lambda>done p. insert_point lt p done) [] ps"

text \<open>
  The comment in \<^verbatim>\<open>get_volume\<close> says the points are sorted on the x coordinate, and the
  spec that the order is primarily on x: \<open>x_ordered lt\<close> says so of a comparison, and
  leaves open how it orders points of equal x.
\<close>

definition x_ordered :: "(CartesianCoordinate \<Rightarrow> CartesianCoordinate \<Rightarrow> bool) \<Rightarrow> bool" where
  "x_ordered lt \<longleftrightarrow>
     (\<forall>p q. (coord_x p < coord_x q \<longrightarrow> lt p q) \<and> (lt p q \<longrightarrow> coord_x p \<le> coord_x q))"

text \<open>The comparison that looks at the x-coordinate only; it is \<open>x_ordered\<close>.\<close>

definition lt_x :: "CartesianCoordinate \<Rightarrow> CartesianCoordinate \<Rightarrow> bool" where
  "lt_x p q \<longleftrightarrow> coord_x p < coord_x q"

text \<open>
  \<^verbatim>\<open>Triangle.get_volume\<close>. The three sorted points are read off the sorted list, which
  has three elements as the list of the vertices has.
\<close>

fun get_volume ::
    "(CartesianCoordinate \<Rightarrow> CartesianCoordinate \<Rightarrow> bool) \<Rightarrow> Triangle \<Rightarrow> sym" where
  "get_volume lt (Triangle point_A point_B point_C) =
     (let plane = get_plane_equation (Triangle point_A point_B point_C);
          points = sort_points lt [point_A, point_B, point_C];
          sorted_point_A = points ! 0;
          sorted_point_B = points ! 1;
          sorted_point_C = points ! 2;
          lineAB = Line2D sorted_point_A sorted_point_B;
          lineBC = Line2D sorted_point_B sorted_point_C;
          lineAC = Line2D sorted_point_A sorted_point_C;
          volume1 = compute_double_integral plane (coord_x sorted_point_A) (coord_x sorted_point_B)
                      (get_line_equation lineAC) (get_line_equation lineAB);
          volume2 = compute_double_integral plane (coord_x sorted_point_B) (coord_x sorted_point_C)
                      (get_line_equation lineAC) (get_line_equation lineBC)
      in sym_add (sym_abs volume1) (sym_abs volume2))"






text \<open>
  The sum of the two strips of \<^verbatim>\<open>get_volume\<close> for vertices in a given order: what the
  body of \<^verbatim>\<open>get_volume\<close> computes from the sorted points.
\<close>

definition strips_volume ::
    "plane \<Rightarrow> CartesianCoordinate \<Rightarrow> CartesianCoordinate \<Rightarrow> CartesianCoordinate \<Rightarrow> sym" where
  "strips_volume pl s1 s2 s3 =
     sym_add
       (sym_abs (compute_double_integral pl (coord_x s1) (coord_x s2)
          (get_line_equation (Line2D s1 s3)) (get_line_equation (Line2D s1 s2))))
       (sym_abs (compute_double_integral pl (coord_x s2) (coord_x s3)
          (get_line_equation (Line2D s1 s3)) (get_line_equation (Line2D s2 s3))))"

section \<open>The volume as the spec states it\<close>

text \<open>
  The spec's \<^verbatim>\<open>compute_volume\<close>: the vertices sorted ascending by x (any stable sort by
  the key x), the edge through two points as the line with slope
  \<open>(yB - yA) / (xB - xA)\<close> and intercept \<open>yA - slope * xA\<close>, and every strip the integral
  of the plane between two edges, or exactly 0 when one of the two edges is vertical.
\<close>

definition edge_vertical :: "CartesianCoordinate \<times> CartesianCoordinate \<Rightarrow> bool" where
  "edge_vertical e \<longleftrightarrow> coord_x (fst e) = coord_x (snd e)"

definition edge_function :: "CartesianCoordinate \<times> CartesianCoordinate \<Rightarrow> linear" where
  "edge_function e =
     (let slope = (coord_y (snd e) - coord_y (fst e)) / (coord_x (snd e) - coord_x (fst e))
      in Linear slope (coord_y (fst e) - slope * coord_x (fst e)))"

definition strip_integral ::
    "plane \<Rightarrow> real \<Rightarrow> real \<Rightarrow> CartesianCoordinate \<times> CartesianCoordinate \<Rightarrow>
     CartesianCoordinate \<times> CartesianCoordinate \<Rightarrow> sym" where
  "strip_integral pl x_from x_to e_from e_to =
     (if edge_vertical e_from \<or> edge_vertical e_to then Num 0
      else integrate pl (edge_function e_from) (edge_function e_to) x_from x_to)"

definition compute_volume :: "Triangle \<Rightarrow> sym" where
  "compute_volume t = (case t of Triangle A B C \<Rightarrow>
     let sorted_vertices = sort_key coord_x [A, B, C];
         A' = sorted_vertices ! 0;
         B' = sorted_vertices ! 1;
         C' = sorted_vertices ! 2;
         strip_1 = strip_integral (get_plane_equation t) (coord_x A') (coord_x B') (A', C') (A', B');
         strip_2 = strip_integral (get_plane_equation t) (coord_x B') (coord_x C') (A', C') (B', C')
     in sym_add (sym_abs strip_1) (sym_abs strip_2))"

section \<open>TriangularMesh\<close>

text \<open>
  The point cloud is a table with the columns x, y, z and elevation; \<^verbatim>\<open>iloc\<close> reads a
  row by position and raises \<^verbatim>\<open>IndexError\<close> out of range. The triangulation \<^verbatim>\<open>data\<close> comes
  from the external Delaunay routine and is a field of the mesh: index triples, the
  indices natural numbers. \<^verbatim>\<open>print_progress\<close> (module \<^verbatim>\<open>utils\<close>) is not among the sources:
  it is the parameter \<open>print_progress\<close>, given the iteration count and the number of
  triangles, returning \<open>None\<close> when it returns and \<open>Some e\<close> when it raises \<open>e\<close>.
\<close>

datatype row = Row (col_x: real) (col_y: real) (col_z: real) (col_elevation: real)

datatype error = IndexError | ProgressError

datatype TriangularMesh =
  TriangularMesh (point_cloud: "row list") (data: "(nat \<times> nat \<times> nat) list")

definition iloc :: "row list \<Rightarrow> nat \<Rightarrow> error + row" where
  "iloc rows i = (if i < length rows then Inr (rows ! i) else Inl IndexError)"

text \<open>
  The loop of \<^verbatim>\<open>TriangularMesh.get_volume\<close>: the remaining triples, the iteration count
  and the accumulated \<^verbatim>\<open>mesh_volume\<close> are the state. Nothing in the loop catches an
  exception, so the first error ends it.
\<close>

fun mesh_loop ::
    "(CartesianCoordinate \<Rightarrow> CartesianCoordinate \<Rightarrow> bool) \<Rightarrow> (nat \<Rightarrow> nat \<Rightarrow> error option) \<Rightarrow>
     row list \<Rightarrow> nat \<Rightarrow> (nat \<times> nat \<times> nat) list \<Rightarrow> nat \<Rightarrow> sym \<Rightarrow> error + sym" where
  "mesh_loop lt print_progress cloud data_amount [] iteration mesh_volume = Inr mesh_volume"
| "mesh_loop lt print_progress cloud data_amount ((i0, i1, i2) # rest) iteration mesh_volume =
     (case iloc cloud i0 of Inl e \<Rightarrow> Inl e | Inr A \<Rightarrow>
      case iloc cloud i1 of Inl e \<Rightarrow> Inl e | Inr B \<Rightarrow>
      case iloc cloud i2 of Inl e \<Rightarrow> Inl e | Inr C \<Rightarrow>
        let point_A = CartesianCoordinate (col_x A) (col_y A) (col_z A);
            point_B = CartesianCoordinate (col_x B) (col_y B) (col_z B);
            point_C = CartesianCoordinate (col_x C) (col_y C) (col_z C);
            triangle = Triangle point_A point_B point_C;
            volume = get_volume lt triangle;
            mesh_volume' = sym_add mesh_volume volume;
            iteration' = iteration + 1
        in case print_progress iteration' data_amount of
             Some e \<Rightarrow> Inl e
           | None \<Rightarrow> mesh_loop lt print_progress cloud data_amount rest iteration' mesh_volume')"

definition mesh_get_volume ::
    "(CartesianCoordinate \<Rightarrow> CartesianCoordinate \<Rightarrow> bool) \<Rightarrow> (nat \<Rightarrow> nat \<Rightarrow> error option) \<Rightarrow>
     TriangularMesh \<Rightarrow> error + sym" where
  "mesh_get_volume lt print_progress m =
     mesh_loop lt print_progress (point_cloud m) (length (data m)) (data m) 0 (Num 0)"

text \<open>
  For stating the total: the point built from the columns x, y, z of a row, the
  triangle of an index triple, the sum of a list of volumes, indices within the point
  cloud, a progress sink that never fails, and the unit square at constant height \<open>h\<close>
  split into the triangles ABC and ACD.
\<close>

definition row_point :: "row \<Rightarrow> CartesianCoordinate" where
  "row_point r = CartesianCoordinate (col_x r) (col_y r) (col_z r)"

definition mesh_triangle :: "row list \<Rightarrow> nat \<times> nat \<times> nat \<Rightarrow> Triangle" where
  "mesh_triangle cloud tri = (case tri of (i0, i1, i2) \<Rightarrow>
     Triangle (row_point (cloud ! i0)) (row_point (cloud ! i1)) (row_point (cloud ! i2)))"

fun sym_sum :: "sym list \<Rightarrow> sym" where
  "sym_sum [] = Num 0"
| "sym_sum (v # vs) = sym_add v (sym_sum vs)"

definition valid_indices :: "row list \<Rightarrow> (nat \<times> nat \<times> nat) list \<Rightarrow> bool" where
  "valid_indices cloud tris \<longleftrightarrow>
     (\<forall>tri \<in> set tris. case tri of (i0, i1, i2) \<Rightarrow>
        i0 < length cloud \<and> i1 < length cloud \<and> i2 < length cloud)"

definition no_progress :: "nat \<Rightarrow> nat \<Rightarrow> error option" where
  "no_progress i n = None"

definition unit_square_mesh :: "real \<Rightarrow> TriangularMesh" where
  "unit_square_mesh h =
     TriangularMesh [Row 0 0 h h, Row 1 0 h h, Row 1 1 h h, Row 0 1 h h] [(0, 1, 2), (0, 2, 3)]"

section \<open>Polynomials and the integral\<close>

lemma peval_padd: "peval (padd p q) t = peval p t + peval q t"
  by (induction p q rule: padd.induct) (simp_all add: algebra_simps)

lemma peval_smult: "peval (smult r p) t = r * peval p t"
  by (induction p) (simp_all add: smult_def algebra_simps)

lemma peval_psub: "peval (psub p q) t = peval p t - peval q t"
  by (simp add: psub_def peval_padd peval_smult)

lemma peval_pmult: "peval (pmult p q) t = peval p t * peval q t"
  by (induction p) (simp_all add: peval_padd peval_smult algebra_simps)

lemma peval_pint_from_padd:
  "peval (pint_from n (padd p q)) t = peval (pint_from n p) t + peval (pint_from n q) t"
  by (induction p q arbitrary: n rule: padd.induct) (simp_all add: algebra_simps add_divide_distrib)

lemma peval_pint_from_smult:
  "peval (pint_from n (smult r p)) t = r * peval (pint_from n p) t"
  by (induction p arbitrary: n) (simp_all add: smult_def algebra_simps)

lemma peval_pint_psub:
  "peval (pint (psub p q)) t = peval (pint p) t - peval (pint q) t"
  by (simp add: pint_def psub_def peval_pint_from_padd peval_pint_from_smult algebra_simps)

text \<open>
  \<open>pint\<close> is an antiderivative, and \<open>integrate\<close> is the iterated integral of the plane's
  height function: for any antiderivative \<open>H\<close> in \<^verbatim>\<open>y\<close> of the height and any
  antiderivative \<open>F\<close> in \<^verbatim>\<open>x\<close> of \<open>H\<close> between the two lines, the result is \<open>F hi - F lo\<close>.
\<close>

lemma DERIV_pint_from:
  "((\<lambda>t. t ^ Suc n * peval (pint_from n p) t) has_real_derivative t ^ n * peval p t) (at t)"
proof (induction p arbitrary: n)
  case Nil
  show ?case by simp
next
  case (Cons k ks)
  have f: "(\<lambda>t. t ^ Suc n * peval (pint_from n (k # ks)) t)
      = (\<lambda>t. k / real (Suc n) * t ^ Suc n + t ^ Suc (Suc n) * peval (pint_from (Suc n) ks) t)"
    by (simp add: fun_eq_iff algebra_simps)
  have "((\<lambda>t. t ^ Suc n) has_real_derivative real (Suc n) * t ^ n) (at t)"
    using DERIV_pow [of "Suc n" t] by simp
  from DERIV_cmult [OF this, of "k / real (Suc n)"]
  have "((\<lambda>t. k / real (Suc n) * t ^ Suc n) has_real_derivative k * t ^ n) (at t)"
    by simp
  from DERIV_add [OF this Cons.IH [of "Suc n"]]
  show ?case
    unfolding f by (simp add: algebra_simps)
qed

lemma DERIV_pint: "((\<lambda>t. peval (pint p) t) has_real_derivative peval p t) (at t)"
  using DERIV_pint_from [of 0 p t] by (simp add: pint_def)

lemma peval_antiderivative_y:
  "peval (antiderivative_y (Plane a b c xo yo zo) l) s
     = ((a * xo + b * yo) / c + zo - a / c * s) * linear_at l s - b / c / 2 * (linear_at l s)\<^sup>2"
proof (cases l)
  case (Linear m k)
  have "peval (antiderivative_y (Plane a b c xo yo zo) (Linear m k)) s
      = peval [(a * xo + b * yo) / c + zo, - a / c] s * peval [k, m] s
        + (- b / c / 2) * (peval [k, m] s * peval [k, m] s)"
    by (simp only: antiderivative_y.simps Let_def peval_padd peval_pmult peval_smult)
  also have "\<dots> = ((a * xo + b * yo) / c + zo - a / c * s) * linear_at (Linear m k) s
      - b / c / 2 * (linear_at (Linear m k) s)\<^sup>2"
    by (simp add: power2_eq_square algebra_simps)
  finally show ?thesis
    using Linear by simp
qed

lemma plane_at_affine:
  assumes "c \<noteq> 0"
  shows "the (plane_at (Plane a b c xo yo zo) s t) = ((a * xo + b * yo) / c + zo - a / c * s) - b / c * t"
proof -
  have "(- a * (s - xo) - b * (t - yo)) / c = (a * xo + b * yo) / c - a / c * s - b / c * t"
    by (simp add: algebra_simps diff_divide_distrib add_divide_distrib)
  then show ?thesis
    using assms by simp
qed

lemma DERIV_affine_antiderivative:
  fixes u v :: real
  shows "((\<lambda>y. u * y - v / 2 * y\<^sup>2) has_real_derivative u - v * t) (at t)"
  by (auto intro!: derivative_eq_intros)

lemma DERIV_plane_y:
  assumes "c \<noteq> 0"
  shows "((\<lambda>y. ((a * xo + b * yo) / c + zo - a / c * s) * y - b / c / 2 * y\<^sup>2)
      has_real_derivative the (plane_at (Plane a b c xo yo zo) s t)) (at t)"
  unfolding plane_at_affine [OF assms]
  by (rule DERIV_affine_antiderivative)

lemma same_derivative_difference:
  fixes f g :: "real \<Rightarrow> real"
  assumes "\<And>t. (f has_real_derivative d t) (at t)" and "\<And>t. (g has_real_derivative d t) (at t)"
  shows "f v - f u = g v - g u"
proof -
  have "((\<lambda>t. f t - g t) has_real_derivative 0) (at t)" for t
    using DERIV_diff [OF assms(1) [of t] assms(2) [of t]] by simp
  then have "f v - g v = f u - g u"
    using DERIV_isconst_all [of "\<lambda>t. f t - g t" v u] by blast
  then show ?thesis by simp
qed

lemma integrate_iterated_integral:
  assumes c: "c \<noteq> 0"
    and H: "\<And>s t. ((\<lambda>y. H s y) has_real_derivative the (plane_at (Plane a b c xo yo zo) s t)) (at t)"
    and F: "\<And>s. (F has_real_derivative H s (linear_at l2 s) - H s (linear_at l1 s)) (at s)"
  shows "integrate (Plane a b c xo yo zo) l1 l2 lo hi = Num (F hi - F lo)"
proof -
  define G where "G = psub (antiderivative_y (Plane a b c xo yo zo) l2)
      (antiderivative_y (Plane a b c xo yo zo) l1)"
  have d: "H s v - H s u
      = (((a * xo + b * yo) / c + zo - a / c * s) * v - b / c / 2 * v\<^sup>2)
        - (((a * xo + b * yo) / c + zo - a / c * s) * u - b / c / 2 * u\<^sup>2)" for s u v
    by (rule same_derivative_difference [where d = "\<lambda>t. the (plane_at (Plane a b c xo yo zo) s t)"])
      (rule H, rule DERIV_plane_y [OF c])
  have G: "peval G s = H s (linear_at l2 s) - H s (linear_at l1 s)" for s
    by (simp add: G_def peval_psub peval_antiderivative_y d)
  have P: "((\<lambda>t. peval (pint G) t) has_real_derivative H s (linear_at l2 s) - H s (linear_at l1 s)) (at s)"
    for s
    using DERIV_pint [of G s] by (simp add: G)
  have v: "F hi - F lo = peval (pint G) hi - peval (pint G) lo"
    by (rule same_derivative_difference [where d = "\<lambda>s. H s (linear_at l2 s) - H s (linear_at l1 s)"])
      (rule F, rule P)
  show ?thesis
  proof (cases "l1 = l2 \<or> lo = hi")
    case True
    have "F hi - F lo = 0"
    proof (cases "lo = hi")
      case True
      then show ?thesis by simp
    next
      case False
      then have "l1 = l2" using True by simp
      then have "(F has_real_derivative 0) (at s)" for s
        using F [of s] by simp
      then have "F hi = F lo"
        using DERIV_isconst_all [of F hi lo] by blast
      then show ?thesis by simp
    qed
    then show ?thesis
      using True c by auto
  next
    case False
    then show ?thesis
      using c v by (simp add: Let_def G_def)
  qed
qed

lemma integrate_swap_limits:
  "sym_abs (integrate pl l1 l2 lo hi) = sym_abs (integrate pl l2 l1 lo hi)"
proof (cases pl)
  case (Plane a b c xo yo zo)
  have "\<bar>peval (pint (psub p q)) hi - peval (pint (psub p q)) lo\<bar>
      = \<bar>peval (pint (psub q p)) hi - peval (pint (psub q p)) lo\<bar>" for p q
    by (simp add: peval_pint_psub)
  then show ?thesis
    using Plane by (auto simp: Let_def)
qed

section \<open>Sorting the vertices\<close>

lemma mset_insert_point: "mset (insert_point lt p qs) = add_mset p (mset qs)"
  by (induction qs) simp_all

lemma mset_foldl_insert_point:
  "mset (foldl (\<lambda>done p. insert_point lt p done) acc ps) = mset acc + mset ps"
  by (induction ps arbitrary: acc) (simp_all add: mset_insert_point)

lemma mset_sort_points: "mset (sort_points lt ps) = mset ps"
  by (simp add: sort_points_def mset_foldl_insert_point)

lemma set_insert_point: "set (insert_point lt p qs) = insert p (set qs)"
  by (induction qs) auto

lemma sorted_insert_point:
  assumes "x_ordered lt" and "sorted (map coord_x qs)"
  shows "sorted (map coord_x (insert_point lt p qs))"
  using assms(2)
proof (induction qs)
  case Nil
  then show ?case by simp
next
  case (Cons q qs)
  show ?case
  proof (cases "lt p q")
    case True
    then have "coord_x p \<le> coord_x q"
      using assms(1) by (simp add: x_ordered_def)
    then show ?thesis
      using True Cons.prems by auto
  next
    case False
    then have "coord_x q \<le> coord_x p"
      using assms(1) by (auto simp: x_ordered_def not_less[symmetric])
    then show ?thesis
      using False Cons by (auto simp: set_insert_point)
  qed
qed

lemma sorted_foldl_insert_point:
  "x_ordered lt \<Longrightarrow> sorted (map coord_x acc) \<Longrightarrow>
   sorted (map coord_x (foldl (\<lambda>done p. insert_point lt p done) acc ps))"
  by (induction ps arbitrary: acc) (simp_all add: sorted_insert_point)

lemma sorted_sort_points: "x_ordered lt \<Longrightarrow> sorted (map coord_x (sort_points lt ps))"
  by (simp add: sort_points_def sorted_foldl_insert_point)

lemma length_sort_points: "length (sort_points lt ps) = length ps"
  using mset_sort_points [of lt ps] by (metis size_mset)

lemma list3: "length xs = 3 \<Longrightarrow> xs = [xs ! 0, xs ! 1, xs ! 2]"
  by (cases xs; cases "tl xs"; cases "tl (tl xs)") auto

lemma mset3_cases:
  assumes "mset [d, e, f] = mset [a, b, c]"
  shows "(d = a \<and> e = b \<and> f = c) \<or> (d = a \<and> e = c \<and> f = b) \<or> (d = b \<and> e = a \<and> f = c)
    \<or> (d = b \<and> e = c \<and> f = a) \<or> (d = c \<and> e = a \<and> f = b) \<or> (d = c \<and> e = b \<and> f = a)"
  using assms by (auto simp: add_eq_conv_ex)


section \<open>The strips do not depend on how equal x-coordinates are ordered\<close>

lemma get_line_equation_None: "get_line_equation (Line2D p q) = None \<longleftrightarrow> coord_x p = coord_x q"
  by (auto simp: Let_def)

lemma compute_double_integral_swap:
  "sym_abs (compute_double_integral pl lo hi l1 l2) = sym_abs (compute_double_integral pl lo hi l2 l1)"
  by (auto simp: compute_double_integral_def integrate_swap_limits)

lemma compute_double_integral_None:
  "compute_double_integral pl lo hi None l = Num 0" "compute_double_integral pl lo hi l None = Num 0"
  by (simp_all add: compute_double_integral_def)

lemma strips_swap12:
  assumes "coord_x s1 = coord_x s2"
  shows "strips_volume pl s2 s1 s3 = strips_volume pl s1 s2 s3"
proof -
  have v: "get_line_equation (Line2D s1 s2) = None" "get_line_equation (Line2D s2 s1) = None"
    using assms by (simp_all add: get_line_equation_None)
  show ?thesis
    unfolding strips_volume_def v compute_double_integral_None
    using compute_double_integral_swap [of pl "coord_x s2" "coord_x s3"
        "get_line_equation (Line2D s1 s3)" "get_line_equation (Line2D s2 s3)"]
    by (simp add: assms)
qed

lemma strips_swap23:
  assumes "coord_x s2 = coord_x s3"
  shows "strips_volume pl s1 s3 s2 = strips_volume pl s1 s2 s3"
proof -
  have v: "get_line_equation (Line2D s2 s3) = None" "get_line_equation (Line2D s3 s2) = None"
    using assms by (simp_all add: get_line_equation_None)
  show ?thesis
    unfolding strips_volume_def v compute_double_integral_None
    using compute_double_integral_swap [of pl "coord_x s1" "coord_x s2"
        "get_line_equation (Line2D s1 s3)" "get_line_equation (Line2D s1 s2)"]
    by (simp add: assms)
qed

lemma strips_volume_arrangement:
  assumes m: "mset [t1, t2, t3] = mset [s1, s2, s3]"
    and s: "coord_x s1 \<le> coord_x s2" "coord_x s2 \<le> coord_x s3"
    and t: "coord_x t1 \<le> coord_x t2" "coord_x t2 \<le> coord_x t3"
  shows "strips_volume pl t1 t2 t3 = strips_volume pl s1 s2 s3"
proof -
  consider "t1 = s1 \<and> t2 = s2 \<and> t3 = s3" | "t1 = s1 \<and> t2 = s3 \<and> t3 = s2"
    | "t1 = s2 \<and> t2 = s1 \<and> t3 = s3" | "t1 = s2 \<and> t2 = s3 \<and> t3 = s1"
    | "t1 = s3 \<and> t2 = s1 \<and> t3 = s2" | "t1 = s3 \<and> t2 = s2 \<and> t3 = s1"
    using mset3_cases [OF m] by blast
  then show ?thesis
  proof cases
    case 1
    then show ?thesis by simp
  next
    case 2
    then have "coord_x s2 = coord_x s3" using s t by simp
    then show ?thesis using 2 by (simp add: strips_swap23)
  next
    case 3
    then have "coord_x s1 = coord_x s2" using s t by simp
    then show ?thesis using 3 by (simp add: strips_swap12)
  next
    case 4
    then have e: "coord_x s1 = coord_x s2" "coord_x s2 = coord_x s3" using s t by simp_all
    have "strips_volume pl s2 s3 s1 = strips_volume pl s2 s1 s3"
      using e by (simp add: strips_swap23)
    also have "\<dots> = strips_volume pl s1 s2 s3"
      using e by (simp add: strips_swap12)
    finally show ?thesis using 4 by simp
  next
    case 5
    then have e: "coord_x s1 = coord_x s2" "coord_x s2 = coord_x s3" using s t by simp_all
    have "strips_volume pl s3 s1 s2 = strips_volume pl s1 s3 s2"
      using e by (simp add: strips_swap12)
    also have "\<dots> = strips_volume pl s1 s2 s3"
      using e by (simp add: strips_swap23)
    finally show ?thesis using 5 by simp
  next
    case 6
    then have e: "coord_x s1 = coord_x s2" "coord_x s2 = coord_x s3" using s t by simp_all
    have "strips_volume pl s3 s2 s1 = strips_volume pl s2 s3 s1"
      using e by (simp add: strips_swap12)
    also have "\<dots> = strips_volume pl s2 s1 s3"
      using e by (simp add: strips_swap23)
    also have "\<dots> = strips_volume pl s1 s2 s3"
      using e by (simp add: strips_swap12)
    finally show ?thesis using 6 by simp
  qed
qed

lemma get_volume_as_strips_volume:
  "get_volume lt (Triangle A B C) =
     (let ps = sort_points lt [A, B, C]
      in strips_volume (get_plane_equation (Triangle A B C)) (ps ! 0) (ps ! 1) (ps ! 2))"
  by (simp add: Let_def strips_volume_def del: get_plane_equation.simps)

lemma get_volume_arrangement:
  assumes lt: "x_ordered lt"
    and m: "mset [s1, s2, s3] = mset [A, B, C]"
    and s: "coord_x s1 \<le> coord_x s2" "coord_x s2 \<le> coord_x s3"
  shows "get_volume lt (Triangle A B C) = strips_volume (get_plane_equation (Triangle A B C)) s1 s2 s3"
proof -
  define ps where "ps = sort_points lt [A, B, C]"
  have len: "length ps = 3"
    by (simp add: ps_def length_sort_points)
  then have ps: "ps = [ps ! 0, ps ! 1, ps ! 2]"
    by (rule list3)
  have "mset ps = mset [A, B, C]"
    by (simp add: ps_def mset_sort_points)
  then have m': "mset [ps ! 0, ps ! 1, ps ! 2] = mset [s1, s2, s3]"
    using ps m by metis
  have "sorted (map coord_x ps)"
    using lt by (simp add: ps_def sorted_sort_points)
  then have "sorted (map coord_x [ps ! 0, ps ! 1, ps ! 2])"
    using ps by metis
  then have o: "coord_x (ps ! 0) \<le> coord_x (ps ! 1)" "coord_x (ps ! 1) \<le> coord_x (ps ! 2)"
    by simp_all
  have "get_volume lt (Triangle A B C)
      = strips_volume (get_plane_equation (Triangle A B C)) (ps ! 0) (ps ! 1) (ps ! 2)"
    by (simp add: get_volume_as_strips_volume ps_def Let_def del: get_plane_equation.simps get_volume.simps)
  also have "\<dots> = strips_volume (get_plane_equation (Triangle A B C)) s1 s2 s3"
    by (rule strips_volume_arrangement [OF m' s o])
  finally show ?thesis .
qed

lemma strip_integral_compute_double_integral:
  "strip_integral pl lo hi (p1, q1) (p2, q2) =
     compute_double_integral pl lo hi (get_line_equation (Line2D p1 q1)) (get_line_equation (Line2D p2 q2))"
  by (auto simp: strip_integral_def compute_double_integral_def edge_vertical_def edge_function_def
      Let_def)

lemma compute_volume_strips_volume:
  "compute_volume (Triangle A B C) =
     (let ps = sort_key coord_x [A, B, C]
      in strips_volume (get_plane_equation (Triangle A B C)) (ps ! 0) (ps ! 1) (ps ! 2))"
  unfolding compute_volume_def strips_volume_def Let_def Triangle.case
    strip_integral_compute_double_integral ..

lemma get_volume_compute_volume:
  assumes "x_ordered lt"
  shows "get_volume lt t = compute_volume t"
proof (cases t)
  case (Triangle A B C)
  define ps where "ps = sort_key coord_x [A, B, C]"
  have "length ps = 3"
    by (simp add: ps_def)
  then have ps: "ps = [ps ! 0, ps ! 1, ps ! 2]"
    by (rule list3)
  have "mset ps = mset [A, B, C]"
    unfolding ps_def by (rule mset_sort)
  then have m: "mset [ps ! 0, ps ! 1, ps ! 2] = mset [A, B, C]"
    using ps by metis
  have "sorted (map coord_x ps)"
    unfolding ps_def by (rule sorted_sort_key)
  then have "sorted (map coord_x [ps ! 0, ps ! 1, ps ! 2])"
    using ps by metis
  then have o: "coord_x (ps ! 0) \<le> coord_x (ps ! 1)" "coord_x (ps ! 1) \<le> coord_x (ps ! 2)"
    by simp_all
  have "get_volume lt (Triangle A B C)
      = strips_volume (get_plane_equation (Triangle A B C)) (ps ! 0) (ps ! 1) (ps ! 2)"
    by (rule get_volume_arrangement [OF assms m o])
  also have "\<dots> = compute_volume (Triangle A B C)"
    by (simp only: compute_volume_strips_volume Let_def ps_def)
  finally show ?thesis
    using Triangle by simp
qed



section \<open>The plane does not depend on the order of the vertices\<close>















section \<open>The mesh loop\<close>

lemma sym_add_assoc: "sym_add (sym_add u v) w = sym_add u (sym_add v w)"
  by (cases u; cases v; cases w) simp_all

lemma sym_add_zero: "sym_add (Num 0) v = v" "sym_add v (Num 0) = v"
  by (cases v; simp)+

lemma sym_sum_Num: "sym_sum (map Num rs) = Num (sum_list rs)"
  by (induction rs) simp_all

lemma mesh_loop_sum:
  assumes "valid_indices cloud tris" and "\<And>i n. print_progress i n = None"
  shows "mesh_loop lt print_progress cloud n tris k acc
       = Inr (sym_add acc (sym_sum (map (\<lambda>tri. get_volume lt (mesh_triangle cloud tri)) tris)))"
  using assms(1)
proof (induction tris arbitrary: k acc)
  case Nil
  show ?case by (simp add: sym_add_zero)
next
  case (Cons tri tris)
  obtain i0 i1 i2 where tri: "tri = (i0, i1, i2)"
    by (cases tri) auto
  have i: "i0 < length cloud" "i1 < length cloud" "i2 < length cloud"
    using Cons.prems by (simp_all add: valid_indices_def tri)
  have v: "valid_indices cloud tris"
    using Cons.prems by (simp add: valid_indices_def)
  show ?case
    using i by (simp add: tri iloc_def assms(2) [of "Suc k" n] Cons.IH [OF v] mesh_triangle_def
        row_point_def sym_add_assoc Let_def del: get_volume.simps)
qed

lemma mesh_get_volume_sum_valid:
  assumes "valid_indices (point_cloud m) (data m)" and "\<And>i n. print_progress i n = None"
  shows "mesh_get_volume lt print_progress m
       = Inr (sym_sum (map (\<lambda>tri. get_volume lt (mesh_triangle (point_cloud m) tri)) (data m)))"
  by (simp add: mesh_get_volume_def mesh_loop_sum [OF assms] sym_add_zero del: get_volume.simps)


lemma square_ABC:
  assumes "x_ordered lt"
  shows "get_volume lt (Triangle (CartesianCoordinate 0 0 h) (CartesianCoordinate 1 0 h)
           (CartesianCoordinate 1 1 h)) = Num (\<bar>h\<bar> / 2)"
proof -
  have "compute_volume (Triangle (CartesianCoordinate 0 0 h) (CartesianCoordinate 1 0 h)
           (CartesianCoordinate 1 1 h)) = Num (\<bar>h\<bar> / 2)"
    by (simp add: compute_volume_def strip_integral_def edge_vertical_def edge_function_def
      coord_sub_def Let_def psub_def smult_def pint_def abs_if)
  then show ?thesis
    by (simp only: get_volume_compute_volume [OF assms])
qed

lemma square_ACD:
  assumes "x_ordered lt"
  shows "get_volume lt (Triangle (CartesianCoordinate 0 0 h) (CartesianCoordinate 1 1 h)
           (CartesianCoordinate 0 1 h)) = Num (\<bar>h\<bar> / 2)"
proof -
  have "compute_volume (Triangle (CartesianCoordinate 0 0 h) (CartesianCoordinate 1 1 h)
           (CartesianCoordinate 0 1 h)) = Num (\<bar>h\<bar> / 2)"
    by (simp add: compute_volume_def strip_integral_def edge_vertical_def edge_function_def
      coord_sub_def Let_def psub_def smult_def pint_def abs_if)
  then show ?thesis
    by (simp only: get_volume_compute_volume [OF assms])
qed

lemma unit_square_volume:
  assumes "x_ordered lt" and "\<And>i n. print_progress i n = None"
  shows "mesh_get_volume lt print_progress (unit_square_mesh h) = Inr (Num \<bar>h\<bar>)"
proof -
  have v: "valid_indices (point_cloud (unit_square_mesh h)) (data (unit_square_mesh h))"
    by (simp add: valid_indices_def unit_square_mesh_def)
  show ?thesis
    unfolding mesh_get_volume_sum_valid [OF v assms(2)]
    by (simp add: unit_square_mesh_def mesh_triangle_def row_point_def
        square_ABC [OF assms(1)] square_ACD [OF assms(1)] del: get_volume.simps)
qed

section \<open>Line2D.get_line_equation\<close>

text \<open>
  C5. \<^verbatim>\<open>get_line_equation\<close> returns the vertical sentinel \<^verbatim>\<open>None\<close> exactly when the two
  points have equal x-coordinates, and otherwise the linear function with slope
  \<open>(yB - yA) / (xB - xA)\<close> and intercept \<open>yA - slope * xA\<close>; it has no other outcome.
\<close>

theorem get_line_equation_cases:
  "get_line_equation (Line2D A B) =
     (if coord_x B = coord_x A then None
      else Some (Linear ((coord_y B - coord_y A) / (coord_x B - coord_x A))
                        (coord_y A - (coord_y B - coord_y A) / (coord_x B - coord_x A) * coord_x A)))"
  by (simp add: Let_def)


section \<open>Triangle.get_plane_equation\<close>







section \<open>Triangle.get_volume\<close>





text \<open>
  C6. A triangle with two coincident vertices should have volume 0. At
  \<open>A = B = (0,0,0)\<close>, \<open>C = (1,0,0)\<close> the normal vector is zero, the plane expression is the
  quotient \<^verbatim>\<open>0/0\<close>, the second strip has no vertical edge, and \<^verbatim>\<open>get_volume\<close> returns
  \<^verbatim>\<open>nan\<close>.
\<close>

theorem get_volume_coincident_nan:
  "get_volume lt_x (Triangle (CartesianCoordinate 0 0 0) (CartesianCoordinate 0 0 0)
         (CartesianCoordinate 1 0 0)) = NaN"
  by (simp add: sort_points_def lt_x_def compute_double_integral_def coord_sub_def Let_def)

text \<open>
  C7. For every triangle whose three vertices share the same x-coordinate,
  \<^verbatim>\<open>get_volume\<close> returns 0: both strips are bounded by vertical edges and contribute 0, and
  nothing is raised. This holds for every comparison of the points.
\<close>

theorem get_volume_equal_x:
  assumes "coord_x A = coord_x B" and "coord_x B = coord_x C"
  shows "get_volume lt (Triangle A B C) = Num 0"
proof -
  define ps where "ps = sort_points lt [A, B, C]"
  have len: "length ps = 3"
    by (simp add: ps_def length_sort_points)
  have "set ps = {A, B, C}"
    using mset_sort_points [of lt "[A, B, C]"] unfolding ps_def
    by (metis list.simps(15) empty_set mset_eq_setD)
  then have "coord_x p = coord_x A" if "p \<in> set ps" for p
    using that assms by auto
  then have x: "coord_x (ps ! 0) = coord_x A" "coord_x (ps ! 1) = coord_x A"
    "coord_x (ps ! 2) = coord_x A"
    using len by simp_all
  have "strips_volume pl (ps ! 0) (ps ! 1) (ps ! 2) = Num 0" for pl
    by (simp add: strips_volume_def compute_double_integral_def x)
  then show ?thesis
    by (simp only: get_volume_as_strips_volume Let_def ps_def)
qed

theorem get_volume_equal_x_witness:
  "coord_x (CartesianCoordinate 1 0 0) = coord_x (CartesianCoordinate 1 2 3)
   \<and> coord_x (CartesianCoordinate 1 2 3) = coord_x (CartesianCoordinate 1 (- 1) 5)
   \<and> get_volume lt_x (Triangle (CartesianCoordinate 1 0 0) (CartesianCoordinate 1 2 3)
         (CartesianCoordinate 1 (- 1) 5)) = Num 0"
proof -
  have e: "coord_x (CartesianCoordinate 1 0 0) = coord_x (CartesianCoordinate 1 2 3)"
    "coord_x (CartesianCoordinate 1 2 3) = coord_x (CartesianCoordinate 1 (- 1) 5)"
    by simp_all
  show ?thesis
    using e get_volume_equal_x [OF e, of lt_x] by (simp del: get_volume.simps)
qed

section \<open>TriangularMesh.get_volume\<close>

text \<open>
  C8, as amended. For every point cloud and triangulation with indices inside the
  point cloud, and a progress sink that does not fail, \<^verbatim>\<open>TriangularMesh.get_volume\<close>
  returns the unweighted sum over all index triples of the volume of the triangle
  built from the columns x, y, z of the three referenced rows (the elevation column is
  not read); for the unit square at constant height \<open>h\<close>, split into two triangles, it
  returns \<open>1.0 * |h|\<close>, which is \<open>1.0 * h\<close> when \<open>h \<ge> 0\<close>.
\<close>

theorem mesh_get_volume_total:
  assumes "valid_indices (point_cloud m) (data m)"
    and "\<And>i n. print_progress i n = None"
    and "x_ordered lt"
  shows "mesh_get_volume lt print_progress m
       = Inr (sym_sum (map (\<lambda>tri. get_volume lt (mesh_triangle (point_cloud m) tri)) (data m)))
    \<and> mesh_get_volume lt print_progress (unit_square_mesh h) = Inr (Num \<bar>h\<bar>)"
  using mesh_get_volume_sum_valid [OF assms(1,2)] unit_square_volume [OF assms(3,2)]
  by (simp del: get_volume.simps)

theorem mesh_get_volume_total_witness:
  "valid_indices (point_cloud (unit_square_mesh 2)) (data (unit_square_mesh 2))
   \<and> (\<forall>i n. no_progress i n = None)
   \<and> x_ordered lt_x
   \<and> mesh_get_volume lt_x no_progress (unit_square_mesh 2) = Inr (Num 2)"
proof -
  have v: "valid_indices (point_cloud (unit_square_mesh 2)) (data (unit_square_mesh 2))"
    by (simp add: valid_indices_def unit_square_mesh_def)
  have p: "no_progress i n = None" for i n
    by (simp add: no_progress_def)
  have x: "x_ordered lt_x"
    by (auto simp: x_ordered_def lt_x_def)
  have t: "mesh_get_volume lt_x no_progress (unit_square_mesh 2) = Inr (Num \<bar>2\<bar>)"
    using mesh_get_volume_total [where print_progress = no_progress and lt = lt_x
        and m = "unit_square_mesh 2" and h = 2, OF v p x]
    by (rule conjunct2)
  show ?thesis
    using v p x t by simp
qed

text \<open>
  C8, as stated: at height \<open>h = -1\<close> the unit square gives 1, not \<open>1.0 * h = -1\<close>; each
  strip enters the sum by its absolute value.
\<close>

theorem unit_square_negative_height_counterexample:
  "mesh_get_volume lt_x no_progress (unit_square_mesh (- 1)) = Inr (Num 1)
   \<and> mesh_get_volume lt_x no_progress (unit_square_mesh (- 1)) \<noteq> Inr (Num (1 * (- 1)))"
proof -
  have x: "x_ordered lt_x"
    by (auto simp: x_ordered_def lt_x_def)
  have p: "no_progress i n = None" for i n
    by (simp add: no_progress_def)
  show ?thesis
    using unit_square_volume [where print_progress = no_progress and lt = lt_x and h = "- 1",
        OF x p]
    by simp
qed




end
